theory Spec2Isabelle
  imports Complex_Main
begin

section \<open>Conventions of the embedding\<close>

text \<open>
  The program is browser JavaScript: a typeahead controller (class \<open>DelhiAreaAnalyzer\<close>)
  and a calculator result renderer (function \<open>submitForm\<close>).

  \<^item> A JavaScript number is modelled by the rational it denotes (\<open>rat\<close>); indices and
    counters are \<open>int\<close>. Comparisons of doubles are exact and are the comparisons of
    \<open>rat\<close>. The pie dataset, whose shape depends on the rounding of a sum, is computed with
    the rounding operations \<open>double_add\<close> and \<open>double_sub\<close>; the amortization schedule is
    computed in exact arithmetic. \<open>NaN\<close>, the infinities and overflow are outside the model.
  \<^item> A DOM element is modelled by the properties the code reads or writes: a \<open>display\<close>
    style is a \<open>bool\<close> (\<open>True\<close> for \<open>'block'\<close>, \<open>False\<close> for \<open>'none'\<close>), the dropdown's
    \<open>innerHTML\<close> is the list of its rendered \<open>.search-result-item\<close> elements.
  \<^item> An \<open>async\<close> function is split at its \<open>await\<close>: the part that issues the request, and
    the continuation that receives the outcome of the request as an argument.
  \<^item> A thrown exception is a value: \<open>Inl message\<close> of a sum type.
  \<^item> Timers (\<open>setTimeout\<close>, \<open>clearTimeout\<close>) are a table of pending timers and a clock in
    milliseconds; the passing of time is the event \<open>elapse\<close>.
  \<^item> \<open>console.error\<close> has no effect on the page and is left out.
\<close>

section \<open>Typeahead controller\<close>

subsection \<open>Data\<close>

record search_result =
  location :: string
  zone :: string
  safety_rating :: rat
  crime_level :: string

text \<open>One rendered \<open>div.search-result-item\<close> of the dropdown.\<close>

record dropdown_item =
  data_index :: nat
  item_location :: string
  item_zone :: string
  item_safetyColor :: string
  item_safety_rating :: rat
  item_crimeColor :: string
  item_crime_level :: string
  item_active :: bool

text \<open>The JSON object of \<open>/api/location/<name>\<close>; an absent or empty string is falsy.\<close>

record location_data =
  d_location :: string
  d_zone :: string
  d_crime_level :: string
  d_safety_rating :: rat
  d_crime_rating :: rat
  d_total_crimes :: int
  d_water_clogging :: "string option"
  d_electricity_issues :: "string option"
  d_pros :: "string list"
  d_cons :: "string list"

text \<open>The elements that \<open>displayLocationDetails\<close> fills (number formatting left out).\<close>

record detail_panel =
  el_locationName :: string
  el_locationZone :: string
  el_crimeLevel_text :: string
  el_crimeLevel_className :: string
  el_safetyRating :: rat
  el_crimeRating :: rat
  el_totalCrimes :: int
  el_waterIssues :: string
  el_prosList :: "string list"
  el_consList :: "string list"
  el_waterClogging :: string
  el_electricityIssues :: string

text \<open>
  The controller's fields, the page elements it owns, and its environment: the timer
  table (id, due time, query captured by the callback), the clock, and the log of the
  requests that were issued.
\<close>

record analyzer =
  searchInput_value :: string
  searchDropdown_items :: "dropdown_item list"
  searchDropdown_display :: bool
  loadingIndicator_display :: bool
  locationDetails_display :: bool
  locationDetails_panel :: "detail_panel option"
  errorMessage_display :: bool
  errorText :: string
  searchTimeout :: "nat option"
  selectedLocationIndex :: int
  searchResults :: "search_result list"
  timers :: "(nat \<times> nat \<times> string) list"
  nextTimerId :: nat
  now :: nat
  searchFetches :: "string list"
  detailFetches :: "string list"

text \<open>
  The outcome of a \<open>fetch\<close>: the promise rejects (network failure) with a message, or
  resolves to a response with a status whose body parses as JSON or does not
  (\<open>response.json()\<close> rejects with a message). A body that parses is taken to have the
  shape the code reads (a list of results, a location object, a result object).
\<close>

datatype 'a body = Json 'a | NotJson string

datatype 'a fetch_outcome = Rejected string | Response nat "'a body"

definition ok :: "nat \<Rightarrow> bool" where
  "ok status = (200 \<le> status \<and> status \<le> 299)"

datatype key = ArrowDown | ArrowUp | Enter | Escape | OtherKey

subsection \<open>Tiering\<close>

definition getSafetyColor :: "rat \<Rightarrow> string" where
  "getSafetyColor rating =
     (if rating \<ge> 8 then ''bg-success''
      else if rating \<ge> 6 then ''bg-warning''
      else ''bg-danger'')"

text \<open>\<open>String.prototype.toLowerCase\<close>, on ASCII letters.\<close>

definition toLowerCase :: "string \<Rightarrow> string" where
  "toLowerCase =
     map (\<lambda>c. let n = (of_char c :: nat) in if 65 \<le> n \<and> n \<le> 90 then char_of (n + 32) else c)"

definition getCrimeColor :: "string \<Rightarrow> string" where
  "getCrimeColor level =
     (let l = toLowerCase level in
      if l = ''low'' then ''bg-success''
      else if l = ''medium'' then ''bg-warning''
      else if l = ''high'' then ''bg-danger''
      else ''bg-secondary'')"

subsection \<open>Showing and hiding\<close>

definition showDropdown :: "analyzer \<Rightarrow> analyzer" where
  "showDropdown s = s\<lparr>searchDropdown_display := True\<rparr>"

definition hideDropdown :: "analyzer \<Rightarrow> analyzer" where
  "hideDropdown s = s\<lparr>searchDropdown_display := False\<rparr>"

definition showLoading :: "analyzer \<Rightarrow> analyzer" where
  "showLoading s = s\<lparr>loadingIndicator_display := True, locationDetails_display := False\<rparr>"

definition hideLoading :: "analyzer \<Rightarrow> analyzer" where
  "hideLoading s = s\<lparr>loadingIndicator_display := False\<rparr>"

definition showError :: "string \<Rightarrow> analyzer \<Rightarrow> analyzer" where
  "showError message s =
     s\<lparr>errorText := message, errorMessage_display := True, locationDetails_display := False\<rparr>"

definition hideError :: "analyzer \<Rightarrow> analyzer" where
  "hideError s = s\<lparr>errorMessage_display := False\<rparr>"

subsection \<open>Timers\<close>

definition clearTimeout :: "nat option \<Rightarrow> analyzer \<Rightarrow> analyzer" where
  "clearTimeout h s =
     (case h of None \<Rightarrow> s | Some i \<Rightarrow> s\<lparr>timers := filter (\<lambda>t. fst t \<noteq> i) (timers s)\<rparr>)"

definition setTimeout :: "string \<Rightarrow> nat \<Rightarrow> analyzer \<Rightarrow> nat \<times> analyzer" where
  "setTimeout q delay s =
     (nextTimerId s,
      s\<lparr>timers := timers s @ [(nextTimerId s, now s + delay, q)],
        nextTimerId := Suc (nextTimerId s)\<rparr>)"

subsection \<open>Search\<close>

text \<open>The first part of \<open>searchLocations\<close>: the request \<open>GET /api/search?q=query\<close> is issued.\<close>

definition fetchSearch :: "string \<Rightarrow> analyzer \<Rightarrow> analyzer" where
  "fetchSearch query s = s\<lparr>searchFetches := searchFetches s @ [query]\<rparr>"

definition handleSearchInput :: "string \<Rightarrow> analyzer \<Rightarrow> analyzer" where
  "handleSearchInput query s =
     (let s1 = clearTimeout (searchTimeout s) s in
      if length query < 2 then hideDropdown s1
      else (let (h, s2) = setTimeout query 300 s1 in s2\<lparr>searchTimeout := Some h\<rparr>))"

text \<open>
  Time passes by \<open>d\<close> milliseconds: every pending timer that is due runs its callback
  \<open>() => this.searchLocations(query)\<close>, which issues the request.
\<close>

definition elapse :: "nat \<Rightarrow> analyzer \<Rightarrow> analyzer" where
  "elapse d s =
     (let t = now s + d;
          fired = filter (\<lambda>(i, due, q). due \<le> t) (timers s);
          rest = filter (\<lambda>(i, due, q). \<not> due \<le> t) (timers s)
      in fold (\<lambda>(i, due, q). fetchSearch q) fired (s\<lparr>now := t, timers := rest\<rparr>))"

text \<open>
  The markup of one result. The texts of a result are taken to contain no markup of
  their own, so that each result renders as exactly one \<open>.search-result-item\<close>.
\<close>

definition renderItem :: "nat \<times> search_result \<Rightarrow> dropdown_item" where
  "renderItem p =
     (case p of (index, result) \<Rightarrow>
        \<lparr>data_index = index,
         item_location = location result,
         item_zone = zone result,
         item_safetyColor = getSafetyColor (safety_rating result),
         item_safety_rating = safety_rating result,
         item_crimeColor = getCrimeColor (crime_level result),
         item_crime_level = crime_level result,
         item_active = False\<rparr>)"

definition displaySearchResults :: "search_result list \<Rightarrow> analyzer \<Rightarrow> analyzer" where
  "displaySearchResults results s =
     (let s1 = s\<lparr>searchResults := results, selectedLocationIndex := -1\<rparr> in
      if length results = 0 then hideDropdown s1
      else showDropdown (s1\<lparr>searchDropdown_items := map renderItem (enumerate 0 results)\<rparr>))"

text \<open>
  The continuation of \<open>searchLocations\<close> after \<open>await fetch\<close>: the \<open>try\<close> block gives
  the exception's message or the new state, the \<open>catch\<close> block shows the fixed text.
\<close>

definition searchLocations_try ::
  "search_result list fetch_outcome \<Rightarrow> analyzer \<Rightarrow> string + analyzer" where
  "searchLocations_try outcome s =
     (case outcome of
        Rejected msg \<Rightarrow> Inl msg
      | Response status b \<Rightarrow>
          if \<not> ok status then Inl ''Search failed''
          else (case b of
                  NotJson msg \<Rightarrow> Inl msg
                | Json results \<Rightarrow> Inr (displaySearchResults results s)))"

definition searchLocations_resume ::
  "search_result list fetch_outcome \<Rightarrow> analyzer \<Rightarrow> analyzer" where
  "searchLocations_resume outcome s =
     (case searchLocations_try outcome s of
        Inl error \<Rightarrow> showError ''Failed to search locations. Please try again.'' s
      | Inr s' \<Rightarrow> s')"

subsection \<open>Selection and detail\<close>

definition updateSelection :: "analyzer \<Rightarrow> analyzer" where
  "updateSelection s =
     s\<lparr>searchDropdown_items :=
         map (\<lambda>(index, item). item\<lparr>item_active := (int index = selectedLocationIndex s)\<rparr>)
           (enumerate 0 (searchDropdown_items s))\<rparr>"

text \<open>
  The first part of \<open>loadLocationDetails\<close>, up to the \<open>await fetch\<close>: the request
  \<open>GET /api/location/locationName\<close> is issued.
\<close>

definition loadLocationDetails_start :: "string \<Rightarrow> analyzer \<Rightarrow> analyzer" where
  "loadLocationDetails_start locationName s =
     (let s1 = hideError (showLoading s) in
      s1\<lparr>detailFetches := detailFetches s1 @ [locationName]\<rparr>)"

definition selectLocation :: "int \<Rightarrow> analyzer \<Rightarrow> analyzer" where
  "selectLocation index s =
     (if index \<ge> 0 \<and> index < int (length (searchResults s)) then
        (let loc = searchResults s ! nat index;
             s1 = s\<lparr>searchInput_value := location loc\<rparr>;
             s2 = hideDropdown s1
         in loadLocationDetails_start (location loc) s2)
      else s)"

definition handleKeyNavigation :: "key \<Rightarrow> analyzer \<Rightarrow> analyzer" where
  "handleKeyNavigation k s =
     (let items_length = int (length (searchDropdown_items s)) in
      case k of
        ArrowDown \<Rightarrow>
          updateSelection
            (s\<lparr>selectedLocationIndex := min (selectedLocationIndex s + 1) (items_length - 1)\<rparr>)
      | ArrowUp \<Rightarrow>
          updateSelection (s\<lparr>selectedLocationIndex := max (selectedLocationIndex s - 1) (-1)\<rparr>)
      | Enter \<Rightarrow>
          (if selectedLocationIndex s \<ge> 0 then selectLocation (selectedLocationIndex s) s
           else s)
      | Escape \<Rightarrow> hideDropdown s
      | OtherKey \<Rightarrow> s)"

definition orElse :: "string option \<Rightarrow> string \<Rightarrow> string" where
  "orElse v dflt = (case v of None \<Rightarrow> dflt | Some t \<Rightarrow> if t = [] then dflt else t)"

definition displayLocationDetails :: "location_data \<Rightarrow> analyzer \<Rightarrow> analyzer" where
  "displayLocationDetails d s =
     s\<lparr>locationDetails_panel := Some
          \<lparr>el_locationName = d_location d,
           el_locationZone = d_zone d,
           el_crimeLevel_text = d_crime_level d,
           el_crimeLevel_className = ''badge fs-6 me-2 '' @ getCrimeColor (d_crime_level d),
           el_safetyRating = d_safety_rating d,
           el_crimeRating = d_crime_rating d,
           el_totalCrimes = d_total_crimes d,
           el_waterIssues = orElse (d_water_clogging d) ''Not specified'',
           el_prosList = d_pros d,
           el_consList = d_cons d,
           el_waterClogging = orElse (d_water_clogging d) ''Not specified'',
           el_electricityIssues = orElse (d_electricity_issues d) ''Not specified''\<rparr>,
       locationDetails_display := True\<rparr>"

text \<open>
  The continuation of \<open>loadLocationDetails\<close> after \<open>await fetch\<close>: \<open>try\<close>, then \<open>catch\<close>
  with \<open>showError(error.message)\<close>, then \<open>finally\<close> with \<open>hideLoading\<close>.
\<close>

definition loadLocationDetails_try ::
  "location_data fetch_outcome \<Rightarrow> analyzer \<Rightarrow> string + analyzer" where
  "loadLocationDetails_try outcome s =
     (case outcome of
        Rejected msg \<Rightarrow> Inl msg
      | Response status b \<Rightarrow>
          if \<not> ok status then
            (if status = 404 then Inl ''Location not found''
             else Inl ''Failed to load location details'')
          else (case b of
                  NotJson msg \<Rightarrow> Inl msg
                | Json locationData \<Rightarrow> Inr (displayLocationDetails locationData s)))"

definition loadLocationDetails_resume ::
  "location_data fetch_outcome \<Rightarrow> analyzer \<Rightarrow> analyzer" where
  "loadLocationDetails_resume outcome s =
     hideLoading
       (case loadLocationDetails_try outcome s of
          Inl message \<Rightarrow> showError message s
        | Inr s' \<Rightarrow> s')"

subsection \<open>The controller as an event handler\<close>

text \<open>
  The state the constructor leaves: no timer handle, no selection, no results. The
  page's markup is not part of the sources; the panels start hidden and empty.
\<close>

definition new_analyzer :: analyzer where
  "new_analyzer =
     \<lparr>searchInput_value = [],
      searchDropdown_items = [],
      searchDropdown_display = False,
      loadingIndicator_display = False,
      locationDetails_display = False,
      locationDetails_panel = None,
      errorMessage_display = False,
      errorText = [],
      searchTimeout = None,
      selectedLocationIndex = -1,
      searchResults = [],
      timers = [],
      nextTimerId = 1,
      now = 0,
      searchFetches = [],
      detailFetches = []\<rparr>"

text \<open>
  The events the controller reacts to: the listeners of \<open>initializeEventListeners\<close> and
  of the dropdown items, the passing of time, and the arrival of a response. \<open>Dismiss\<close>
  stands for the two listeners that only call \<open>hideDropdown\<close>: the callback armed by
  \<open>blur\<close> (which runs 200 ms after it and whose handle is not kept) and the document's
  \<open>click\<close> listener for a click outside the input and the dropdown.
\<close>

datatype event =
    Input string
  | Elapse nat
  | KeyDown key
  | ClickItem int
  | Dismiss
  | SearchResponse "search_result list fetch_outcome"
  | DetailResponse "location_data fetch_outcome"

fun step :: "event \<Rightarrow> analyzer \<Rightarrow> analyzer" where
  "step (Input text) s = handleSearchInput text (s\<lparr>searchInput_value := text\<rparr>)"
| "step (Elapse d) s = elapse d s"
| "step (KeyDown k) s = handleKeyNavigation k s"
| "step (ClickItem index) s = selectLocation index s"
| "step Dismiss s = hideDropdown s"
| "step (SearchResponse outcome) s = searchLocations_resume outcome s"
| "step (DetailResponse outcome) s = loadLocationDetails_resume outcome s"

definition run :: "event list \<Rightarrow> analyzer \<Rightarrow> analyzer" where
  "run evs s = fold step evs s"

section \<open>Calculator result renderer\<close>

subsection \<open>Data\<close>

text \<open>
  The object \<open>await res.json()\<close> gives, with the fields the renderer reads for any of the
  calculator types. Every numeric field holds a number: a field that is absent from the
  response (\<open>undefined\<close>) is outside the model.
\<close>

record calc_result =
  principal :: rat
  emi :: rat
  total_interest :: rat
  total_payment :: rat
  max_emi :: rat
  affordable_loan :: rat
  affordable_property :: rat
  income :: rat
  expenses :: rat
  existing_emis :: rat
  remaining_income :: rat
  dti_ratio :: rat
  risk_level :: string
  debt :: rat
  gratuity :: rat
  corpus :: rat
  required_corpus :: rat
  status :: string

text \<open>
  The submitted form as the amortization code reads it: \<open>body_tenure\<close> is
  \<open>parseInt(body.tenure)\<close> and \<open>body_rate\<close> is \<open>parseFloat(body.rate)\<close>. The parsing of the
  input strings is not modelled.
\<close>

record form_body =
  body_tenure :: int
  body_rate :: rat

text \<open>
  The summary markup, by template: the interpolated values are kept, the fixed text of
  a template is its constructor. \<open>Markup\<close> is markup with no interpolation.
\<close>

datatype html =
    EmiResults rat rat rat rat
  | AffordabilityResults rat rat rat
  | DtiResults rat string
  | GratuityResults rat
  | RetirementResults rat rat string
  | Markup string

record chart_data =
  cd_labels :: "string list"
  cd_data :: "rat list"
  cd_colors :: "string list"
  cd_total :: rat

record pie_chart =
  pie_labels :: "string list"
  pie_data :: "rat list"
  pie_colors :: "string list"

record bar_chart =
  bar_labels :: "string list"
  bar_data :: "rat list"
  bar_colors :: "string list"

record amort_chart =
  amort_labels :: "int list"
  principalData :: "rat list"
  interestData :: "rat list"

text \<open>
  What a render leaves on the page: the summary, and for each of the three canvases
  the dataset of the chart drawn on it, or \<open>None\<close> when the canvas is hidden. A chart
  object of an earlier render is destroyed and does not influence the new page.
\<close>

record page =
  resultContainer :: html
  pieChart :: "pie_chart option"
  barChart :: "bar_chart option"
  amortChart :: "amort_chart option"

subsection \<open>Addition and subtraction of doubles\<close>

text \<open>
  The number of binary digits of a natural number, the powers of two with an integer
  exponent, and \<open>ilog2 x\<close>, the exponent \<open>e\<close> with \<open>2^e \<le> x < 2^(e+1)\<close> for a positive \<open>x\<close>.
\<close>

fun bitLength :: "nat \<Rightarrow> nat" where
  "bitLength n = (if n = 0 then 0 else Suc (bitLength (n div 2)))"

declare bitLength.simps [simp del]

definition pow2 :: "int \<Rightarrow> rat" where
  "pow2 k = (if k \<ge> 0 then 2 ^ nat k else 1 / 2 ^ nat (- k))"

definition ilog2 :: "rat \<Rightarrow> int" where
  "ilog2 x =
     (if x \<ge> 1 then int (bitLength (nat \<lfloor>x\<rfloor>)) - 1
      else - int (bitLength (nat (\<lceil>1 / x\<rceil> - 1))))"

definition roundHalfEven :: "rat \<Rightarrow> int" where
  "roundHalfEven q =
     (let f = \<lfloor>q\<rfloor>; r = q - of_int f
      in if r < 1 / 2 then f else if r > 1 / 2 then f + 1 else if even f then f else f + 1)"

text \<open>
  The double nearest to a rational, ties to the even significand (IEEE 754 binary64,
  round to nearest): the significand has 53 bits, so a number of exponent \<open>e\<close> is rounded
  to a multiple of \<open>2^(e - 52)\<close>, and to a multiple of \<open>2^(-1074)\<close> in the subnormal range.
  JavaScript's \<open>+\<close> and \<open>-\<close> on numbers round the exact result this way.
\<close>

definition toDouble :: "rat \<Rightarrow> rat" where
  "toDouble x =
     (if x = 0 then 0
      else (let a = \<bar>x\<bar>;
                e = max (ilog2 a - 52) (- 1074);
                n = roundHalfEven (a / pow2 e)
            in sgn x * of_int n * pow2 e))"

definition double_add :: "rat \<Rightarrow> rat \<Rightarrow> rat" where
  "double_add a b = toDouble (a + b)"

definition double_sub :: "rat \<Rightarrow> rat \<Rightarrow> rat" where
  "double_sub a b = toDouble (a - b)"

subsection \<open>Rendering\<close>

text \<open>The \<open>if\<close> chain on \<open>type\<close>: the summary and \<open>chartData\<close> (\<open>None\<close> is \<open>null\<close>).\<close>

definition summarize :: "string \<Rightarrow> calc_result \<Rightarrow> html \<times> chart_data option" where
  "summarize type result =
     (if type = ''emi'' then
        (EmiResults (principal result) (emi result) (total_interest result)
           (total_payment result), None)
      else if type = ''affordability'' then
        (AffordabilityResults (max_emi result) (affordable_loan result)
           (affordable_property result),
         Some \<lparr>cd_labels = [''Expenses'', ''Existing EMIs'', ''Remaining Income''],
               cd_data = [expenses result, existing_emis result,
                          if remaining_income result > 0 then remaining_income result else 0],
               cd_colors = [''#f39c12'', ''#2980b9'', ''#27ae60''],
               cd_total = income result\<rparr>)
      else if type = ''dti'' then
        (DtiResults (dti_ratio result) (risk_level result),
         Some \<lparr>cd_labels = [''Debt'', ''Remaining Income''],
               cd_data = [debt result,
                          if remaining_income result > 0 then remaining_income result else 0],
               cd_colors = [''#2980b9'', ''#27ae60''],
               cd_total = income result\<rparr>)
      else if type = ''gratuity'' then (GratuityResults (gratuity result), None)
      else if type = ''retirement'' then
        (RetirementResults (corpus result) (required_corpus result) (status result), None)
      else (Markup ''<p>Invalid calculator type or error.</p>'', None))"

text \<open>
  The pie chart section; \<open>reduce((a, b) => a + b, 0)\<close> is a left fold of the addition of
  doubles, and the residual is a subtraction of doubles.
\<close>

definition pieChart_of :: "chart_data option \<Rightarrow> pie_chart option" where
  "pieChart_of chartData =
     (case chartData of
        None \<Rightarrow> None
      | Some c \<Rightarrow>
          if cd_total c > 0 then
            (let sum = foldl double_add 0 (cd_data c) in
             if sum < cd_total c then
               Some \<lparr>pie_labels = cd_labels c @ [''Other/Unallocated''],
                     pie_data = cd_data c @ [double_sub (cd_total c) sum],
                     pie_colors = cd_colors c @ [''#bdc3c7'']\<rparr>
             else
               Some \<lparr>pie_labels = cd_labels c, pie_data = cd_data c,
                     pie_colors = cd_colors c\<rparr>)
          else None)"

definition barChart_of :: "string \<Rightarrow> calc_result \<Rightarrow> bar_chart option" where
  "barChart_of type result =
     (if type = ''affordability'' then
        Some \<lparr>bar_labels = [''Income'', ''Expenses'', ''Existing EMIs'', ''Remaining Income''],
              bar_data = [income result, expenses result, existing_emis result,
                          if remaining_income result > 0 then remaining_income result else 0],
              bar_colors = [''#2980b9'', ''#f39c12'', ''#c0392b'', ''#27ae60'']\<rparr>
      else None)"

text \<open>The \<open>for\<close> loop of the amortization chart, from period \<open>i\<close> on.\<close>

function amortLoop :: "int \<Rightarrow> int \<Rightarrow> rat \<Rightarrow> calc_result \<Rightarrow> rat \<Rightarrow> amort_chart \<Rightarrow> amort_chart" where
  "amortLoop i tenure rate result balance acc =
     (if i \<le> tenure then
        (let interest = balance * rate;
             principalPaid = emi result - interest
         in amortLoop (i + 1) tenure rate result (balance - principalPaid)
              \<lparr>amort_labels = amort_labels acc @ [i],
               principalData = principalData acc @ [if principalPaid > 0 then principalPaid else 0],
               interestData = interestData acc @ [if interest > 0 then interest else 0]\<rparr>)
      else acc)"
  by pat_completeness auto
termination
  by (relation "measure (\<lambda>(i, tenure, rate, result, balance, acc). nat (tenure + 1 - i))") auto

declare amortLoop.simps [simp del]

text \<open>A number is truthy when it is not zero.\<close>

definition truthy :: "rat \<Rightarrow> bool" where
  "truthy x = (x \<noteq> 0)"

definition amortChart_of :: "string \<Rightarrow> form_body \<Rightarrow> calc_result \<Rightarrow> amort_chart option" where
  "amortChart_of type body result =
     (if type = ''emi'' \<and> truthy (emi result) \<and> truthy (principal result) \<and>
         truthy (total_interest result) then
        (let tenure = body_tenure body;
             rate = body_rate body / (12 * 100);
             balance = principal result
         in Some (amortLoop 1 tenure rate result balance
                    \<lparr>amort_labels = [], principalData = [], interestData = []\<rparr>))
      else None)"

text \<open>Everything \<open>submitForm\<close> does once the result has arrived.\<close>

definition render :: "string \<Rightarrow> form_body \<Rightarrow> calc_result \<Rightarrow> page" where
  "render type body result =
     (let (html, chartData) = summarize type result in
      \<lparr>resultContainer = html,
       pieChart = pieChart_of chartData,
       barChart = barChart_of type result,
       amortChart = amortChart_of type body result\<rparr>)"

text \<open>
  \<open>submitForm\<close>, given the outcome of its request. It has no \<open>try\<close>: a rejected \<open>fetch\<close>
  or a body that is not JSON is an exception that leaves the function (\<open>Inl\<close>). The
  response's status is not looked at.
\<close>

definition submitForm :: "string \<Rightarrow> form_body \<Rightarrow> calc_result fetch_outcome \<Rightarrow> string + page" where
  "submitForm type body outcome =
     (case outcome of
        Rejected msg \<Rightarrow> Inl msg
      | Response st b \<Rightarrow>
          (case b of
             NotJson msg \<Rightarrow> Inl msg
           | Json result \<Rightarrow> Inr (render type body result)))"

section \<open>Auxiliary notions for the statements\<close>

text \<open>
  A burst of query changes: each change comes a gap (in milliseconds) after the event
  before it.
\<close>

definition typing :: "(nat \<times> string) list \<Rightarrow> event list" where
  "typing gaps = concat (map (\<lambda>(d, q). [Elapse d, Input q]) gaps)"

text \<open>At most one timer is pending, and the controller holds its handle.\<close>

definition timers_ok :: "analyzer \<Rightarrow> bool" where
  "timers_ok s =
     (length (timers s) \<le> 1 \<and> list_all (\<lambda>t. searchTimeout s = Some (fst t)) (timers s))"

text \<open>The debounce timer for query \<open>q\<close> has just been armed.\<close>

definition armed :: "string \<Rightarrow> analyzer \<Rightarrow> bool" where
  "armed q s =
     (searchTimeout s \<noteq> None \<and> timers s = [(the (searchTimeout s), now s + 300, q)])"




text \<open>
  The highlighted index is \<open>-1\<close> or the index of a rendered dropdown item, and the
  rendered items are those of the result list unless that list is empty.
\<close>

definition highlight_ok :: "analyzer \<Rightarrow> bool" where
  "highlight_ok s =
     (- 1 \<le> selectedLocationIndex s \<and>
      selectedLocationIndex s \<le> int (length (searchDropdown_items s)) - 1 \<and>
      (length (searchResults s) = 0 \<or>
       length (searchDropdown_items s) = length (searchResults s)))"

text \<open>Sample data for the concrete instances.\<close>

definition saket :: search_result where
  "saket = \<lparr>location = ''Saket'', zone = ''South Delhi'', safety_rating = 8,
             crime_level = ''Low''\<rparr>"

definition rohini :: search_result where
  "rohini = \<lparr>location = ''Rohini'', zone = ''North West Delhi'', safety_rating = 7,
              crime_level = ''Medium''\<rparr>"

text \<open>
  Two affordability results whose amounts are the doubles of the decimal numbers
  60770.40, 2460.97, 1214.19, 8190.18 and 143282.24, 34473.29, 39952.69,
  68856.25999999998.
\<close>

definition rounded_result :: calc_result where
  "rounded_result =
     \<lparr>principal = 0, emi = 0, total_interest = 0, total_payment = 0, max_emi = 0,
      affordable_loan = 0, affordable_property = 0,
      income = 8352220178074829 / 137438953472,
      expenses = 5411730261215805 / 2199023255552,
      existing_emis = 2670032046658683 / 2199023255552,
      remaining_income = 1125649767947305 / 137438953472,
      dti_ratio = 0, risk_level = [], debt = 0,
      gratuity = 0, corpus = 0, required_corpus = 0, status = []\<rparr>"

definition absorbed_result :: calc_result where
  "absorbed_result =
     \<lparr>principal = 0, emi = 0, total_interest = 0, total_payment = 0, max_emi = 0,
      affordable_loan = 0, affordable_property = 0,
      income = 615392534897623 / 4294967296,
      expenses = 4737972900336763 / 137438953472,
      existing_emis = 686381987748905 / 17179869184,
      remaining_income = 2365883078598983 / 34359738368,
      dti_ratio = 0, risk_level = [], debt = 0,
      gratuity = 0, corpus = 0, required_corpus = 0, status = []\<rparr>"

definition zero_result :: calc_result where
  "zero_result =
     \<lparr>principal = 0, emi = 0, total_interest = 0, total_payment = 0, max_emi = 0,
      affordable_loan = 0, affordable_property = 0, income = 0, expenses = 0,
      existing_emis = 0, remaining_income = 0, dti_ratio = 0, risk_level = [], debt = 0,
      gratuity = 0, corpus = 0, required_corpus = 0, status = []\<rparr>"

section \<open>Basic facts\<close>

lemmas typeahead_defs =
  run_def new_analyzer_def handleSearchInput_def clearTimeout_def setTimeout_def hideDropdown_def
  showDropdown_def elapse_def fetchSearch_def searchLocations_resume_def searchLocations_try_def
  ok_def displaySearchResults_def handleKeyNavigation_def updateSelection_def showError_def
  selectLocation_def loadLocationDetails_start_def loadLocationDetails_resume_def
  loadLocationDetails_try_def showLoading_def hideLoading_def hideError_def Let_def

lemma run_Nil [simp]: "run [] s = s"
  by (simp add: run_def)

lemma run_Cons [simp]: "run (e # evs) s = run evs (step e s)"
  by (simp add: run_def)

lemma new_analyzer_fields:
  "searchFetches new_analyzer = []" "nextTimerId new_analyzer = 1" "now new_analyzer = 0"
  "timers new_analyzer = []" "searchTimeout new_analyzer = None"
  by (simp_all add: new_analyzer_def)

lemma fold_fetchSearch:
  "fold (\<lambda>(i, due, q). fetchSearch q) (xs :: (nat \<times> nat \<times> string) list) s =
     s\<lparr>searchFetches := searchFetches s @ map (\<lambda>(i, due, q). q) xs\<rparr>"
  by (induction xs arbitrary: s) (auto simp add: fetchSearch_def)

text \<open>What \<open>elapse\<close> does, in one update of the state.\<close>

lemma elapse_eq:
  "elapse d s =
     s\<lparr>now := now s + d,
       timers := filter (\<lambda>(i, due, q). \<not> due \<le> now s + d) (timers s),
       searchFetches := searchFetches s @
         map (\<lambda>(i, due, q). q) (filter (\<lambda>(i, due, q). due \<le> now s + d) (timers s))\<rparr>"
  by (simp add: elapse_def Let_def fold_fetchSearch)

lemma render_fields:
  "resultContainer (render type body result) = fst (summarize type result)"
  "pieChart (render type body result) = pieChart_of (snd (summarize type result))"
  "barChart (render type body result) = barChart_of type result"
  "amortChart (render type body result) = amortChart_of type body result"
  by (simp_all add: render_def split_beta)

section \<open>Tiering\<close>

text \<open>
  C9. Safety rating tiers: a rating of at least 8 gets the class of the high tier
  (\<open>bg-success\<close>), a rating from 6 up to but excluding 8 the class of the medium tier
  (\<open>bg-warning\<close>), a rating below 6 the class of the low tier (\<open>bg-danger\<close>); the
  boundaries are exact: 8.0 is high, 7.9 is medium, 5.9 is low.
\<close>

theorem getSafetyColor_tiers:
  "(rating \<ge> 8 \<longrightarrow> getSafetyColor rating = ''bg-success'') \<and>
   (6 \<le> rating \<and> rating < 8 \<longrightarrow> getSafetyColor rating = ''bg-warning'') \<and>
   (rating < 6 \<longrightarrow> getSafetyColor rating = ''bg-danger'') \<and>
   getSafetyColor 8 = ''bg-success'' \<and>
   getSafetyColor (79 / 10) = ''bg-warning'' \<and>
   getSafetyColor (59 / 10) = ''bg-danger''"
  by (simp add: getSafetyColor_def)

theorem getSafetyColor_tiers_witness:
  "getSafetyColor 9 = ''bg-success'' \<and> getSafetyColor 6 = ''bg-warning'' \<and>
   getSafetyColor 0 = ''bg-danger''"
  using getSafetyColor_tiers [of 9] getSafetyColor_tiers [of 6] getSafetyColor_tiers [of 0]
  by simp

section \<open>Selecting a result\<close>

text \<open>
  C10. \<open>selectLocation\<close> with an index outside \<open>[0, searchResults.length - 1]\<close> changes
  nothing: the whole state (input text, dropdown, controller fields, page) is the same
  afterwards, and in particular no detail request is issued.
\<close>

theorem selectLocation_out_of_range:
  "\<not> (0 \<le> index \<and> index < int (length (searchResults s))) \<Longrightarrow>
     selectLocation index s = s \<and>
     detailFetches (selectLocation index s) = detailFetches s"
  unfolding selectLocation_def by (cases "0 \<le> index") simp_all

theorem selectLocation_out_of_range_witness:
  "selectLocation 0 new_analyzer = new_analyzer \<and>
   selectLocation (-1) new_analyzer = new_analyzer \<and>
   detailFetches (selectLocation 0 new_analyzer) = detailFetches new_analyzer"
  using selectLocation_out_of_range [of 0 new_analyzer]
    selectLocation_out_of_range [of "-1" new_analyzer]
  by (simp add: new_analyzer_def)

text \<open>
  Selecting result \<open>i\<close> of the list puts its name into the input, hides the dropdown,
  shows the loading indicator, hides the error panel and issues exactly one detail
  request, for that name.
\<close>

theorem selectLocation_in_range:
  "0 \<le> index \<and> index < int (length (searchResults s)) \<Longrightarrow>
     (let name = location (searchResults s ! nat index);
          s' = selectLocation index s
      in searchInput_value s' = name \<and>
         \<not> searchDropdown_display s' \<and>
         loadingIndicator_display s' \<and>
         \<not> errorMessage_display s' \<and>
         detailFetches s' = detailFetches s @ [name])"
  by (simp add: selectLocation_def loadLocationDetails_start_def hideDropdown_def
      showLoading_def hideError_def Let_def)

theorem selectLocation_in_range_witness:
  "detailFetches (selectLocation 1 (displaySearchResults [saket, rohini] new_analyzer)) =
     [''Rohini'']"
  using selectLocation_in_range [of 1 "displaySearchResults [saket, rohini] new_analyzer"]
  by (simp add: displaySearchResults_def showDropdown_def new_analyzer_def rohini_def Let_def)

section \<open>Keyboard navigation\<close>

lemma elapse_selection:
  "selectedLocationIndex (elapse d s) = selectedLocationIndex s \<and>
   searchDropdown_items (elapse d s) = searchDropdown_items s \<and>
   searchResults (elapse d s) = searchResults s"
  by (simp add: elapse_eq)

lemma highlight_ok_step: "highlight_ok s \<Longrightarrow> highlight_ok (step e s)"
proof (cases e)
  case (Input v)
  assume "highlight_ok s"
  then show ?thesis using Input
    by (simp add: highlight_ok_def handleSearchInput_def clearTimeout_def setTimeout_def
        hideDropdown_def Let_def split: option.splits)
next
  case (Elapse d)
  assume "highlight_ok s"
  then show ?thesis using Elapse elapse_selection [of d s] by (simp add: highlight_ok_def)
next
  case (KeyDown k)
  assume "highlight_ok s"
  then show ?thesis using KeyDown
    by (cases k)
      (auto simp add: highlight_ok_def handleKeyNavigation_def updateSelection_def
        hideDropdown_def selectLocation_def loadLocationDetails_start_def hideError_def
        showLoading_def Let_def)
next
  case (ClickItem i)
  assume "highlight_ok s"
  then show ?thesis using ClickItem
    by (simp add: highlight_ok_def selectLocation_def loadLocationDetails_start_def
        hideError_def showLoading_def hideDropdown_def Let_def)
next
  case Dismiss
  assume "highlight_ok s"
  then show ?thesis using Dismiss by (simp add: highlight_ok_def hideDropdown_def)
next
  case (SearchResponse outcome)
  assume "highlight_ok s"
  then show ?thesis using SearchResponse
    by (auto simp add: highlight_ok_def searchLocations_resume_def searchLocations_try_def
        displaySearchResults_def showError_def hideDropdown_def showDropdown_def Let_def
        split: fetch_outcome.splits body.splits)
next
  case (DetailResponse outcome)
  assume "highlight_ok s"
  then show ?thesis using DetailResponse
    by (simp add: highlight_ok_def loadLocationDetails_resume_def loadLocationDetails_try_def
        displayLocationDetails_def showError_def hideLoading_def
        split: fetch_outcome.splits body.splits)
qed

lemma highlight_ok_run: "highlight_ok s \<Longrightarrow> highlight_ok (run evs s)"
  by (induction evs arbitrary: s) (simp_all add: highlight_ok_step)

text \<open>
  C2. The claim is that the highlighted index stays in \<open>[-1, results.length - 1]\<close> after
  any number of arrow keys. \<open>handleKeyNavigation\<close> clamps against the number of rendered
  dropdown items, and \<open>displaySearchResults\<close> returns early on an empty result list
  without removing the items of the previous list. So after a search with two results and
  a later search with none, one ArrowDown leaves the index at 0 while the result list is
  empty: the index is outside \<open>[-1, -1]\<close>.
\<close>

theorem highlight_exceeds_results:
  "(let s = run [Input ''sa'', Elapse 300,
                 SearchResponse (Response 200 (Json [saket, rohini])),
                 Input ''saz'', Elapse 300,
                 SearchResponse (Response 200 (Json [])),
                 KeyDown ArrowDown] new_analyzer
    in searchFetches s = [''sa'', ''saz''] \<and>
       length (searchResults s) = 0 \<and>
       selectedLocationIndex s = 0 \<and>
       \<not> selectedLocationIndex s \<le> int (length (searchResults s)) - 1)"
  by (simp add: typeahead_defs)

text \<open>
  What the code does keep, after any sequence of events from the start: the highlighted
  index is in \<open>[-1, items - 1]\<close> for the number of rendered dropdown items, hence in
  \<open>[-1, results.length - 1]\<close> whenever the result list is not empty; and replacing the
  results resets the index to \<open>-1\<close>.
\<close>

theorem highlight_within_rendered_items:
  "(let s = run evs new_analyzer
    in - 1 \<le> selectedLocationIndex s \<and>
       selectedLocationIndex s \<le> int (length (searchDropdown_items s)) - 1 \<and>
       (searchResults s \<noteq> [] \<longrightarrow>
          selectedLocationIndex s \<le> int (length (searchResults s)) - 1)) \<and>
   selectedLocationIndex (displaySearchResults results s0) = - 1 \<and>
   searchResults (displaySearchResults results s0) = results"
proof -
  have "highlight_ok new_analyzer" by (simp add: highlight_ok_def new_analyzer_def)
  then have "highlight_ok (run evs new_analyzer)" by (rule highlight_ok_run)
  then show ?thesis
    by (auto simp add: highlight_ok_def Let_def displaySearchResults_def hideDropdown_def
        showDropdown_def)
qed

theorem highlight_within_rendered_items_witness:
  "selectedLocationIndex
     (run [SearchResponse (Response 200 (Json [saket, rohini])), KeyDown ArrowDown,
           KeyDown ArrowDown, KeyDown ArrowDown] new_analyzer) \<le> 1"
  using highlight_within_rendered_items
    [of "[SearchResponse (Response 200 (Json [saket, rohini])), KeyDown ArrowDown,
          KeyDown ArrowDown, KeyDown ArrowDown]"]
  by (simp add: Let_def new_analyzer_def searchLocations_resume_def searchLocations_try_def
      ok_def displaySearchResults_def showDropdown_def handleKeyNavigation_def
      updateSelection_def)

section \<open>Debounced search\<close>

lemma timers_ok_new: "timers_ok new_analyzer"
  by (simp add: timers_ok_def new_analyzer_def)

lemma clearTimeout_handle:
  assumes "timers_ok s"
  shows "timers (clearTimeout (searchTimeout s) s) = []"
proof (cases "timers s")
  case Nil
  then show ?thesis by (simp add: clearTimeout_def split: option.splits)
next
  case (Cons t ts)
  with assms have "ts = []" and "searchTimeout s = Some (fst t)"
    by (simp_all add: timers_ok_def)
  with Cons show ?thesis by (simp add: clearTimeout_def)
qed

lemma clearTimeout_fields:
  "searchFetches (clearTimeout h s) = searchFetches s \<and> now (clearTimeout h s) = now s \<and>
   nextTimerId (clearTimeout h s) = nextTimerId s"
  by (simp add: clearTimeout_def split: option.splits)

lemma handleSearchInput_short:
  "timers_ok s \<Longrightarrow> length q < 2 \<Longrightarrow>
     timers (handleSearchInput q s) = [] \<and>
     \<not> searchDropdown_display (handleSearchInput q s) \<and>
     searchFetches (handleSearchInput q s) = searchFetches s \<and>
     now (handleSearchInput q s) = now s"
  by (simp add: handleSearchInput_def hideDropdown_def clearTimeout_handle clearTimeout_fields)

lemma handleSearchInput_arms:
  "timers_ok s \<Longrightarrow> 2 \<le> length q \<Longrightarrow>
     timers (handleSearchInput q s) = [(nextTimerId s, now s + 300, q)] \<and>
     searchTimeout (handleSearchInput q s) = Some (nextTimerId s) \<and>
     searchFetches (handleSearchInput q s) = searchFetches s \<and>
     now (handleSearchInput q s) = now s"
  by (simp add: handleSearchInput_def setTimeout_def clearTimeout_handle clearTimeout_fields)

lemma elapse_no_timer:
  "timers s = [] \<Longrightarrow> searchFetches (elapse d s) = searchFetches s \<and> timers (elapse d s) = []"
  by (simp add: elapse_eq)

lemma elapse_one_timer:
  "timers s = [(i, due, q)] \<Longrightarrow>
     searchFetches (elapse d s) = searchFetches s @ (if due \<le> now s + d then [q] else []) \<and>
     timers (elapse d s) = (if due \<le> now s + d then [] else [(i, due, q)]) \<and>
     searchTimeout (elapse d s) = searchTimeout s \<and>
     now (elapse d s) = now s + d"
  by (simp add: elapse_eq)

lemma timers_ok_elapse: "timers_ok s \<Longrightarrow> timers_ok (elapse d s)"
proof (cases "timers s")
  case Nil
  assume "timers_ok s"
  with Nil show ?thesis using elapse_no_timer [of s d] by (simp add: timers_ok_def)
next
  case (Cons t ts)
  assume ok: "timers_ok s"
  with Cons have ts: "ts = []" and h: "searchTimeout s = Some (fst t)"
    by (simp_all add: timers_ok_def)
  obtain i due q where t: "t = (i, due, q)" by (cases t) auto
  from Cons ts t have "timers s = [(i, due, q)]" by simp
  from elapse_one_timer [OF this, of d] h t show ?thesis
    by (auto simp add: timers_ok_def)
qed

lemma timers_ok_handleSearchInput: "timers_ok s \<Longrightarrow> timers_ok (handleSearchInput q s)"
  using handleSearchInput_short [of s q] handleSearchInput_arms [of s q]
  by (cases "length q < 2") (auto simp add: timers_ok_def)

lemma selectLocation_timers:
  "timers (selectLocation i s) = timers s \<and> searchTimeout (selectLocation i s) = searchTimeout s"
  by (simp add: selectLocation_def loadLocationDetails_start_def hideDropdown_def hideError_def
      showLoading_def Let_def)

lemma handleKeyNavigation_timers:
  "timers (handleKeyNavigation k s) = timers s \<and>
   searchTimeout (handleKeyNavigation k s) = searchTimeout s"
  by (cases k) (simp_all add: handleKeyNavigation_def updateSelection_def hideDropdown_def
      selectLocation_timers Let_def)

lemma searchLocations_resume_timers:
  "timers (searchLocations_resume outcome s) = timers s \<and>
   searchTimeout (searchLocations_resume outcome s) = searchTimeout s"
  by (simp add: searchLocations_resume_def searchLocations_try_def displaySearchResults_def
      showError_def hideDropdown_def showDropdown_def Let_def
      split: fetch_outcome.splits body.splits)

lemma loadLocationDetails_resume_timers:
  "timers (loadLocationDetails_resume outcome s) = timers s \<and>
   searchTimeout (loadLocationDetails_resume outcome s) = searchTimeout s"
  by (simp add: loadLocationDetails_resume_def loadLocationDetails_try_def
      displayLocationDetails_def showError_def hideLoading_def
      split: fetch_outcome.splits body.splits)

text \<open>Every event keeps the timer table in step with the stored handle.\<close>

lemma timers_ok_step: "timers_ok s \<Longrightarrow> timers_ok (step e s)"
proof (cases e)
  case (Input v)
  assume "timers_ok s"
  then have "timers_ok (s\<lparr>searchInput_value := v\<rparr>)" by (simp add: timers_ok_def)
  then show ?thesis using Input by (simp add: timers_ok_handleSearchInput)
next
  case (Elapse d)
  assume "timers_ok s"
  then show ?thesis using Elapse by (simp add: timers_ok_elapse)
next
  case (KeyDown k)
  assume "timers_ok s"
  then show ?thesis using KeyDown handleKeyNavigation_timers [of k s]
    by (simp add: timers_ok_def)
next
  case (ClickItem i)
  assume "timers_ok s"
  then show ?thesis using ClickItem selectLocation_timers [of i s]
    by (simp add: timers_ok_def)
next
  case Dismiss
  assume "timers_ok s"
  then show ?thesis using Dismiss by (simp add: timers_ok_def hideDropdown_def)
next
  case (SearchResponse outcome)
  assume "timers_ok s"
  then show ?thesis using SearchResponse searchLocations_resume_timers [of outcome s]
    by (simp add: timers_ok_def)
next
  case (DetailResponse outcome)
  assume "timers_ok s"
  then show ?thesis using DetailResponse loadLocationDetails_resume_timers [of outcome s]
    by (simp add: timers_ok_def)
qed

lemma timers_ok_run: "timers_ok s \<Longrightarrow> timers_ok (run evs s)"
  by (induction evs arbitrary: s) (simp_all add: timers_ok_step)

lemma armed_timers_ok: "armed q s \<Longrightarrow> timers_ok s"
  by (auto simp add: armed_def timers_ok_def)

lemma armed_input:
  assumes ok: "timers_ok s" and len: "2 \<le> length q"
  shows "armed q (step (Input q) s) \<and> searchFetches (step (Input q) s) = searchFetches s"
proof -
  from ok have "timers_ok (s\<lparr>searchInput_value := q\<rparr>)" by (simp add: timers_ok_def)
  from handleSearchInput_arms [OF this len] show ?thesis
    by (simp add: armed_def)
qed

lemma armed_gap:
  assumes a: "armed q s" and d: "d < 300"
  shows "timers_ok (elapse d s) \<and> searchFetches (elapse d s) = searchFetches s"
proof -
  from a obtain i where t: "timers s = [(i, now s + 300, q)]"
    by (auto simp add: armed_def)
  from elapse_one_timer [OF t, of d] d have "searchFetches (elapse d s) = searchFetches s"
    by simp
  moreover from a have "timers_ok (elapse d s)"
    by (simp add: armed_timers_ok timers_ok_elapse)
  ultimately show ?thesis by simp
qed

text \<open>Through a burst of query changes only the timer of the last query stays pending.\<close>

lemma burst_armed:
  "armed q0 s \<Longrightarrow> \<forall>(d, q) \<in> set gaps. d < 300 \<and> 2 \<le> length q \<Longrightarrow>
     armed (last (q0 # map snd gaps)) (run (typing gaps) s) \<and>
     searchFetches (run (typing gaps) s) = searchFetches s"
proof (induction gaps arbitrary: q0 s)
  case Nil
  then show ?case by (simp add: typing_def)
next
  case (Cons g gaps)
  obtain d q where g: "g = (d, q)" by (cases g) auto
  from Cons.prems g have d: "d < 300" and q: "2 \<le> length q"
    and rest: "\<forall>(d, q) \<in> set gaps. d < 300 \<and> 2 \<le> length q" by auto
  from armed_gap [OF Cons.prems(1) d]
  have ok: "timers_ok (elapse d s)" and f1: "searchFetches (elapse d s) = searchFetches s"
    by auto
  from armed_input [OF ok q]
  have a: "armed q (step (Input q) (elapse d s))"
    and f2: "searchFetches (step (Input q) (elapse d s)) = searchFetches (elapse d s)"
    by auto
  have unfold: "run (typing (g # gaps)) s = run (typing gaps) (step (Input q) (elapse d s))"
    by (simp add: typing_def g)
  from Cons.IH [OF a rest] f1 f2 unfold show ?case by (auto simp add: g)
qed

text \<open>While nothing but time passes, a pending timer fires once, when it is due.\<close>

lemma quiet_no_timer:
  "timers s = [] \<Longrightarrow> searchFetches (run (map Elapse ds) s) = searchFetches s"
proof (induction ds arbitrary: s)
  case Nil
  then show ?case by simp
next
  case (Cons d ds)
  from elapse_no_timer [OF Cons.prems, of d] Cons.IH [of "elapse d s"] show ?case by simp
qed

lemma quiet_one_timer:
  "timers s = [(i, due, q)] \<Longrightarrow> now s < due \<Longrightarrow>
     searchFetches (run (map Elapse ds) s) =
       searchFetches s @ (if due \<le> now s + sum_list ds then [q] else [])"
proof (induction ds arbitrary: s)
  case Nil
  then show ?case by simp
next
  case (Cons d ds)
  note one = elapse_one_timer [OF Cons.prems(1), of d]
  show ?case
  proof (cases "due \<le> now s + d")
    case True
    with one have "timers (elapse d s) = []" by simp
    from quiet_no_timer [OF this, of ds] one True show ?thesis by simp
  next
    case False
    with one have "timers (elapse d s) = [(i, due, q)]" and "now (elapse d s) < due"
      by simp_all
    from Cons.IH [OF this] one False show ?thesis by (simp add: add.assoc)
  qed
qed

lemma quiet_armed:
  assumes "armed q s"
  shows "searchFetches (run (map Elapse ds) s) =
     searchFetches s @ (if 300 \<le> sum_list ds then [q] else [])"
proof -
  from assms obtain i where t: "timers s = [(i, now s + 300, q)]"
    by (auto simp add: armed_def)
  from quiet_one_timer [OF t, of ds] show ?thesis by simp
qed

text \<open>
  C3. Debounce, from any state the controller can be in (after any earlier events
  \<open>history\<close>). A burst of query changes, each of at least two characters and each less
  than 300 ms after the one before, issues no request while it lasts, leaves pending only
  the timer of its last query, and afterwards, however time passes, issues at most one
  request: exactly the last query, once 300 ms have passed. Arming a timer leaves the new
  timer as the only pending one. A query change of fewer than two characters leaves no
  timer pending, hides the dropdown and issues no request, then or later.
\<close>

theorem debounce_last_query_only:
  "(2 \<le> length q0 \<and> (\<forall>(d, q) \<in> set gaps. d < 300 \<and> 2 \<le> length q) \<longrightarrow>
      (let s = run history new_analyzer;
           s' = run (Input q0 # typing gaps) s
       in searchFetches s' = searchFetches s \<and>
          map (\<lambda>(i, due, q). q) (timers s') = [last (q0 # map snd gaps)] \<and>
          (\<forall>ds. searchFetches (run (map Elapse ds) s') =
                  searchFetches s @
                  (if 300 \<le> sum_list ds then [last (q0 # map snd gaps)] else [])))) \<and>
   (2 \<le> length q1 \<longrightarrow>
      (let s = run history new_analyzer
       in timers (step (Input q1) s) = [(nextTimerId s, now s + 300, q1)])) \<and>
   (length q2 < 2 \<longrightarrow>
      (let s = run history new_analyzer;
           s' = step (Input q2) s
       in timers s' = [] \<and> \<not> searchDropdown_display s' \<and>
          searchFetches s' = searchFetches s \<and>
          (\<forall>ds. searchFetches (run (map Elapse ds) s') = searchFetches s)))"
proof -
  define s where "s = run history new_analyzer"
  have ok: "timers_ok s"
    unfolding s_def by (rule timers_ok_run [OF timers_ok_new])
  have ok': "timers_ok (s\<lparr>searchInput_value := v\<rparr>)" for v
    using ok by (simp add: timers_ok_def)
  have burst: "searchFetches (run (Input q0 # typing gaps) s) = searchFetches s \<and>
      map (\<lambda>(i, due, q). q) (timers (run (Input q0 # typing gaps) s)) =
        [last (q0 # map snd gaps)] \<and>
      (\<forall>ds. searchFetches (run (map Elapse ds) (run (Input q0 # typing gaps) s)) =
              searchFetches s @ (if 300 \<le> sum_list ds then [last (q0 # map snd gaps)] else []))"
    if len: "2 \<le> length q0" and gaps: "\<forall>(d, q) \<in> set gaps. d < 300 \<and> 2 \<le> length q"
  proof -
    from armed_input [OF ok len]
    have a0: "armed q0 (step (Input q0) s)"
      and f0: "searchFetches (step (Input q0) s) = searchFetches s" by auto
    from burst_armed [OF a0 gaps]
    have a: "armed (last (q0 # map snd gaps)) (run (Input q0 # typing gaps) s)"
      and f: "searchFetches (run (Input q0 # typing gaps) s) = searchFetches s"
      using f0 by auto
    from a have "map (\<lambda>(i, due, q). q) (timers (run (Input q0 # typing gaps) s)) =
        [last (q0 # map snd gaps)]"
      by (simp add: armed_def)
    with f quiet_armed [OF a] show ?thesis by simp
  qed
  have arm: "timers (step (Input q1) s) = [(nextTimerId s, now s + 300, q1)]"
    if "2 \<le> length q1"
    using handleSearchInput_arms [OF ok' that] by simp
  have short: "timers (step (Input q2) s) = [] \<and>
      \<not> searchDropdown_display (step (Input q2) s) \<and>
      searchFetches (step (Input q2) s) = searchFetches s \<and>
      (\<forall>ds. searchFetches (run (map Elapse ds) (step (Input q2) s)) = searchFetches s)"
    if "length q2 < 2"
  proof -
    from handleSearchInput_short [OF ok' that]
    have t: "timers (step (Input q2) s) = []"
      and rest: "\<not> searchDropdown_display (step (Input q2) s)"
        "searchFetches (step (Input q2) s) = searchFetches s" by simp_all
    from quiet_no_timer [OF t] rest t show ?thesis by simp
  qed
  from burst arm short show ?thesis
    unfolding s_def [symmetric] Let_def by blast
qed

theorem debounce_last_query_only_witness:
  "searchFetches (run (Input ''de'' # typing [(120, ''del''), (299, ''delh'')]) new_analyzer) =
     [] \<and>
   searchFetches
     (run (map Elapse [100, 200, 50])
        (run (Input ''de'' # typing [(120, ''del''), (299, ''delh'')]) new_analyzer)) =
     [''delh''] \<and>
   timers (step (Input ''de'') new_analyzer) = [(1, 300, ''de'')] \<and>
   timers (step (Input ''d'') new_analyzer) = [] \<and>
   searchFetches (run (map Elapse [1000]) (step (Input ''d'') new_analyzer)) = []"
proof -
  note inst = debounce_last_query_only
    [of "''de''" "[(120, ''del''), (299, ''delh'')]" "[]" "''de''" "''d''"]
  have gaps: "\<forall>(d, q) \<in> set [(120::nat, ''del''), (299, ''delh'')]. d < 300 \<and> 2 \<le> length q"
    by simp
  from inst gaps have
    b: "searchFetches (run (Input ''de'' # typing [(120, ''del''), (299, ''delh'')]) new_analyzer) =
          []"
    and q: "\<And>ds. searchFetches (run (map Elapse ds)
          (run (Input ''de'' # typing [(120, ''del''), (299, ''delh'')]) new_analyzer)) =
          (if 300 \<le> sum_list ds then [''delh''] else [])"
    and a: "timers (step (Input ''de'') new_analyzer) = [(1, 300, ''de'')]"
    and t: "timers (step (Input ''d'') new_analyzer) = []"
    and n: "\<And>ds. searchFetches (run (map Elapse ds) (step (Input ''d'') new_analyzer)) = []"
    by (simp_all add: Let_def new_analyzer_fields)
  from b q [of "[100, 200, 50]"] a t n [of "[1000]"] show ?thesis by simp
qed

section \<open>A failed search\<close>

text \<open>
  The claim C6 as stated, that a failed search ends with the dropdown hidden, fails: the
  \<open>catch\<close> block calls \<open>showError\<close> only, which never touches the dropdown. After a
  successful search has opened the dropdown, a failing search leaves it open under the
  error message.
\<close>

theorem search_failure_dropdown_counterexample:
  "(let s = run [Input ''sa'', Elapse 300,
                 SearchResponse (Response 200 (Json [saket, rohini])),
                 Input ''sak'', Elapse 300,
                 SearchResponse (Response 500 (NotJson ''Internal Server Error''))]
               new_analyzer
    in searchFetches s = [''sa'', ''sak''] \<and>
       errorMessage_display s \<and>
       searchDropdown_display s \<and>
       length (searchDropdown_items s) = 2)"
  by (simp add: typeahead_defs)

text \<open>
  C6, amended. For every search request that fails (the request is rejected, or the
  response is not 2xx), the error panel is shown with the text
  \<open>Failed to search locations. Please try again.\<close> and the detail panel is hidden; the
  dropdown's visibility and items, the result list and the highlighted index are left as
  they were, so the dropdown is hidden afterwards exactly when it was hidden before.
\<close>

theorem search_failure_shows_error:
  "outcome = Rejected msg \<or> (outcome = Response st b \<and> \<not> ok st) \<Longrightarrow>
     (let s' = searchLocations_resume outcome s
      in errorMessage_display s' \<and>
         errorText s' = ''Failed to search locations. Please try again.'' \<and>
         \<not> locationDetails_display s' \<and>
         searchDropdown_display s' = searchDropdown_display s \<and>
         searchDropdown_items s' = searchDropdown_items s \<and>
         searchResults s' = searchResults s \<and>
         selectedLocationIndex s' = selectedLocationIndex s)"
  by (auto simp add: searchLocations_resume_def searchLocations_try_def showError_def Let_def)

theorem search_failure_shows_error_witness:
  "errorMessage_display (searchLocations_resume (Rejected ''Failed to fetch'') new_analyzer) \<and>
   errorText (searchLocations_resume (Response 503 (Json [saket])) new_analyzer) =
     ''Failed to search locations. Please try again.'' \<and>
   \<not> searchDropdown_display (searchLocations_resume (Response 503 (Json [saket])) new_analyzer)"
  using
    search_failure_shows_error
      [of "Rejected ''Failed to fetch''" "''Failed to fetch''" 0 "NotJson []" new_analyzer]
    search_failure_shows_error
      [of "Response 503 (Json [saket])" "[]" 503 "Json [saket]" new_analyzer]
  by (simp add: Let_def ok_def new_analyzer_def)

section \<open>Detail lookup\<close>

text \<open>
  The claim C7 as stated, that every failure other than a 404 shows
  \<open>Failed to load location details\<close>, fails: the \<open>catch\<close> block shows the message of
  whatever was thrown, and a rejected \<open>fetch\<close> brings its own message.
\<close>

theorem detail_failure_message_counterexample:
  "(let s = run [Input ''sa'', Elapse 300,
                 SearchResponse (Response 200 (Json [saket, rohini])),
                 ClickItem 0,
                 DetailResponse (Rejected ''Failed to fetch'')] new_analyzer
    in detailFetches s = [''Saket''] \<and>
       errorMessage_display s \<and>
       errorText s = ''Failed to fetch'' \<and>
       errorText s \<noteq> ''Failed to load location details'')"
  by (simp add: typeahead_defs saket_def)

text \<open>
  C7, amended. For every detail lookup: a 404 response shows \<open>Location not found\<close>; any
  other response that is not 2xx shows \<open>Failed to load location details\<close>; the two texts
  differ; a failure that has no such response (the request is rejected, or a 2xx body is
  not JSON) shows the message of the error that was thrown; a 2xx response with a JSON
  body shows the detail panel and no new error. The loading indicator is hidden after
  every outcome.
\<close>

theorem detail_lookup_outcomes:
  "(errorMessage_display (loadLocationDetails_resume (Response 404 b) s) \<and>
    errorText (loadLocationDetails_resume (Response 404 b) s) = ''Location not found'') \<and>
   (\<not> ok st \<and> st \<noteq> 404 \<longrightarrow>
      errorMessage_display (loadLocationDetails_resume (Response st b) s) \<and>
      errorText (loadLocationDetails_resume (Response st b) s) =
        ''Failed to load location details'') \<and>
   ''Location not found'' \<noteq> ''Failed to load location details'' \<and>
   (errorMessage_display (loadLocationDetails_resume (Rejected msg) s) \<and>
    errorText (loadLocationDetails_resume (Rejected msg) s) = msg) \<and>
   (ok st \<longrightarrow>
      errorMessage_display (loadLocationDetails_resume (Response st (NotJson msg)) s) \<and>
      errorText (loadLocationDetails_resume (Response st (NotJson msg)) s) = msg) \<and>
   (ok st \<longrightarrow>
      locationDetails_display (loadLocationDetails_resume (Response st (Json d)) s) \<and>
      errorText (loadLocationDetails_resume (Response st (Json d)) s) = errorText s \<and>
      errorMessage_display (loadLocationDetails_resume (Response st (Json d)) s) =
        errorMessage_display s) \<and>
   \<not> loadingIndicator_display (loadLocationDetails_resume outcome s)"
  by (simp add: loadLocationDetails_resume_def loadLocationDetails_try_def showError_def
      hideLoading_def displayLocationDetails_def ok_def
      split: fetch_outcome.splits body.splits sum.splits)

theorem detail_lookup_outcomes_witness:
  "errorText (loadLocationDetails_resume (Response 500 (NotJson [])) new_analyzer) =
     ''Failed to load location details'' \<and>
   errorText (loadLocationDetails_resume (Response 200 (NotJson ''Unexpected end of JSON input''))
     new_analyzer) = ''Unexpected end of JSON input'' \<and>
   \<not> loadingIndicator_display
       (loadLocationDetails_resume (Response 500 (NotJson []))
          (loadLocationDetails_start ''Saket'' new_analyzer))"
  using detail_lookup_outcomes [where b = "NotJson []" and s = new_analyzer and st = 500]
    detail_lookup_outcomes [where s = new_analyzer and st = 200
       and msg = "''Unexpected end of JSON input''"]
    detail_lookup_outcomes [where s = "loadLocationDetails_start ''Saket'' new_analyzer"
       and outcome = "Response 500 (NotJson [])"]
  by (simp add: ok_def)

section \<open>Amortization schedule\<close>







section \<open>Arithmetic of doubles\<close>

text \<open>Evaluation of the rounding on numerals.\<close>

lemma bitLength_0 [simp]: "bitLength 0 = 0"
  by (simp add: bitLength.simps)

lemma bitLength_Suc_0 [simp]: "bitLength (Suc 0) = 1"
  by (simp add: bitLength.simps)

lemma bitLength_numeral [simp]: "bitLength (numeral k) = Suc (bitLength (numeral k div 2))"
  by (subst bitLength.simps) simp

lemma floor_rat_numeral [simp]:
  "\<lfloor>numeral a / numeral b :: rat\<rfloor> = numeral a div numeral b"
  by (metis floor_divide_of_int_eq of_int_numeral)

lemma ceiling_rat_numeral [simp]:
  "\<lceil>numeral a / numeral b :: rat\<rceil> = - (- numeral a div numeral b)"
  by (metis ceiling_def floor_divide_of_int_eq minus_divide_left of_int_minus of_int_numeral)

lemmas double_eval =
  toDouble_def ilog2_def pow2_def roundHalfEven_def double_add_def double_sub_def

text \<open>
  A natural number below \<open>2^53\<close> is a double, so sums and differences of such numbers are
  exact as long as they stay below \<open>2^53\<close>.
\<close>

lemma bitLength_le: "n < 2 ^ k \<Longrightarrow> bitLength n \<le> k"
proof (induction k arbitrary: n)
  case 0
  then show ?case by simp
next
  case (Suc k)
  show ?case
  proof (cases "n = 0")
    case True
    then show ?thesis by simp
  next
    case False
    from Suc.prems have "n div 2 < 2 ^ k" by simp
    from Suc.IH [OF this] False show ?thesis by (subst bitLength.simps) simp
  qed
qed

lemma bitLength_pos: "0 < n \<Longrightarrow> 0 < bitLength n"
  by (subst bitLength.simps) simp

lemma roundHalfEven_of_int [simp]: "roundHalfEven (of_int z) = z"
  by (simp add: roundHalfEven_def)

lemma toDouble_of_nat:
  assumes "n < 2 ^ 53"
  shows "toDouble (of_nat n) = of_nat n"
proof (cases "n = 0")
  case True
  then show ?thesis by (simp add: toDouble_def)
next
  case False
  then have pos: "0 < n" by simp
  let ?b = "bitLength n"
  from bitLength_le [OF assms] have le: "?b \<le> 53" .
  from bitLength_pos [OF pos] have ge: "0 < ?b" .
  have x1: "(1::rat) \<le> of_nat n" using pos by simp
  have il: "ilog2 (of_nat n) = int ?b - 1"
    using x1 by (simp add: ilog2_def)
  define j where "j = 53 - ?b"
  have e: "max (ilog2 \<bar>of_nat n :: rat\<bar> - 52) (- 1074) = - int j"
    using le ge by (simp add: il j_def)
  have p: "pow2 (- int j) = 1 / 2 ^ j"
    by (cases "j = 0") (simp_all add: pow2_def)
  have q: "\<bar>of_nat n :: rat\<bar> / pow2 (- int j) = of_int (int n * 2 ^ j)"
    by (simp add: p)
  have "toDouble (of_nat n) = sgn (of_nat n :: rat) * of_int (int n * 2 ^ j) * pow2 (- int j)"
    using False unfolding toDouble_def Let_def e q roundHalfEven_of_int by simp
  also have "\<dots> = of_nat n" using pos by (simp add: p)
  finally show ?thesis .
qed


lemma foldl_double_add_nat:
  "k + sum_list ns < 2 ^ 53 \<Longrightarrow>
     foldl double_add (of_nat k) (map of_nat ns) = of_nat (k + sum_list ns)"
proof (induction ns arbitrary: k)
  case Nil
  then show ?case by simp
next
  case (Cons n ns)
  from Cons.prems have kn: "k + n < 2 ^ 53" and rest: "(k + n) + sum_list ns < 2 ^ 53"
    by simp_all
  have "double_add (of_nat k) (of_nat n) = of_nat (k + n)"
    using toDouble_of_nat [OF kn] by (simp add: double_add_def)
  with Cons.IH [OF rest] show ?case by (simp add: add.assoc)
qed

lemma double_sum_nat:
  "a + b + c < 2 ^ 53 \<Longrightarrow>
     foldl double_add 0 [of_nat a, of_nat b, of_nat c] = of_nat (a + b + c)"
  using foldl_double_add_nat [of 0 "[a, b, c]"] by (simp add: add.assoc)

lemma double_sum_nat2:
  "a + c < 2 ^ 53 \<Longrightarrow> foldl double_add 0 [of_nat a, of_nat c] = of_nat (a + c)"
  using foldl_double_add_nat [of 0 "[a, c]"] by simp

lemma double_sub_nat:
  "s \<le> t \<Longrightarrow> t < 2 ^ 53 \<Longrightarrow> double_sub (of_nat t) (of_nat s) = of_nat (t - s)"
proof -
  assume le: "s \<le> t" and lt: "t < 2 ^ 53"
  then have "t - s < 2 ^ 53" by simp
  from toDouble_of_nat [OF this] le show ?thesis
    by (simp add: double_sub_def of_nat_diff)
qed

section \<open>Pie and bar datasets\<close>

lemma pie_affordability:
  "pieChart (render ''affordability'' body r) =
     (if income r > 0 then
        (if foldl double_add 0 [expenses r, existing_emis r, max 0 (remaining_income r)]
              < income r then
           Some \<lparr>pie_labels = [''Expenses'', ''Existing EMIs'', ''Remaining Income'',
                               ''Other/Unallocated''],
                 pie_data = [expenses r, existing_emis r, max 0 (remaining_income r),
                             double_sub (income r)
                               (foldl double_add 0
                                  [expenses r, existing_emis r, max 0 (remaining_income r)])],
                 pie_colors = [''#f39c12'', ''#2980b9'', ''#27ae60'', ''#bdc3c7'']\<rparr>
         else
           Some \<lparr>pie_labels = [''Expenses'', ''Existing EMIs'', ''Remaining Income''],
                 pie_data = [expenses r, existing_emis r, max 0 (remaining_income r)],
                 pie_colors = [''#f39c12'', ''#2980b9'', ''#27ae60'']\<rparr>)
      else None)"
  by (simp add: render_fields summarize_def pieChart_of_def Let_def max_def)

lemma pie_dti:
  "pieChart (render ''dti'' body r) =
     (if income r > 0 then
        (if foldl double_add 0 [debt r, max 0 (remaining_income r)] < income r then
           Some \<lparr>pie_labels = [''Debt'', ''Remaining Income'', ''Other/Unallocated''],
                 pie_data = [debt r, max 0 (remaining_income r),
                             double_sub (income r)
                               (foldl double_add 0 [debt r, max 0 (remaining_income r)])],
                 pie_colors = [''#2980b9'', ''#27ae60'', ''#bdc3c7'']\<rparr>
         else
           Some \<lparr>pie_labels = [''Debt'', ''Remaining Income''],
                 pie_data = [debt r, max 0 (remaining_income r)],
                 pie_colors = [''#2980b9'', ''#27ae60'']\<rparr>)
      else None)"
  by (simp add: render_fields summarize_def pieChart_of_def Let_def max_def)

lemma bar_affordability:
  "barChart (render ''affordability'' body r) =
     Some \<lparr>bar_labels = [''Income'', ''Expenses'', ''Existing EMIs'', ''Remaining Income''],
           bar_data = [income r, expenses r, existing_emis r, max 0 (remaining_income r)],
           bar_colors = [''#2980b9'', ''#f39c12'', ''#c0392b'', ''#27ae60'']\<rparr>"
  by (simp add: render_fields barChart_of_def max_def)

lemma rounded_sum:
  "foldl double_add 0
     [5411730261215805 / 2199023255552, 2670032046658683 / 2199023255552,
      1125649767947305 / 137438953472] = 3261519824378921 / 274877906944"
  by (simp add: double_eval)

lemma rounded_residual:
  "double_sub (8352220178074829 / 137438953472) (3261519824378921 / 274877906944) =
     840182533235671 / 17179869184"
  by (simp add: double_eval)

lemma absorbed_sum:
  "foldl double_add 0
     [4737972900336763 / 137438953472, 686381987748905 / 17179869184,
      2365883078598983 / 34359738368] = 615392534897623 / 4294967296"
  by (simp add: double_eval)

text \<open>
  The claim C4 as stated, that every affordability or dti result whose income exceeds the
  sum of its category amounts gets the synthetic category and a pie that adds up to
  income, fails in three ways. The pie is drawn only under the guard
  \<open>chartData.total > 0\<close>: with income 0 and a category sum below it (a negative debt)
  there is no pie at all. The sum and the residual are computed in doubles: for income
  60770.40 and the amounts 2460.97, 1214.19, 8190.18 the residual 48905.06 is appended
  and the four amounts do not add up to income, neither exactly nor when added as
  doubles. And for income 143282.24 and the amounts 34473.29, 39952.69,
  68856.25999999998, whose exact sum is below income, the doubles add up to income itself,
  so no category is appended.
\<close>

theorem pie_completion_counterexample:
  "(debt (zero_result\<lparr>debt := - 100\<rparr>) + max 0 (remaining_income (zero_result\<lparr>debt := - 100\<rparr>))
      < income (zero_result\<lparr>debt := - 100\<rparr>) \<and>
    pieChart (render ''dti'' \<lparr>body_tenure = 0, body_rate = 0\<rparr> (zero_result\<lparr>debt := - 100\<rparr>)) =
      None) \<and>
   (pieChart (render ''affordability'' \<lparr>body_tenure = 0, body_rate = 0\<rparr> rounded_result) =
      Some \<lparr>pie_labels = [''Expenses'', ''Existing EMIs'', ''Remaining Income'',
                          ''Other/Unallocated''],
            pie_data = [5411730261215805 / 2199023255552, 2670032046658683 / 2199023255552,
                        1125649767947305 / 137438953472, 840182533235671 / 17179869184],
            pie_colors = [''#f39c12'', ''#2980b9'', ''#27ae60'', ''#bdc3c7'']\<rparr> \<and>
    sum_list [5411730261215805 / 2199023255552, 2670032046658683 / 2199023255552,
              1125649767947305 / 137438953472, 840182533235671 / 17179869184]
      \<noteq> income rounded_result \<and>
    foldl double_add 0 [5411730261215805 / 2199023255552, 2670032046658683 / 2199023255552,
              1125649767947305 / 137438953472, 840182533235671 / 17179869184]
      \<noteq> income rounded_result) \<and>
   (expenses absorbed_result + existing_emis absorbed_result +
      max 0 (remaining_income absorbed_result) < income absorbed_result \<and>
    pieChart (render ''affordability'' \<lparr>body_tenure = 0, body_rate = 0\<rparr> absorbed_result) =
      Some \<lparr>pie_labels = [''Expenses'', ''Existing EMIs'', ''Remaining Income''],
            pie_data = [4737972900336763 / 137438953472, 686381987748905 / 17179869184,
                        2365883078598983 / 34359738368],
            pie_colors = [''#f39c12'', ''#2980b9'', ''#27ae60'']\<rparr>)"
proof -
  have guard: "debt (zero_result\<lparr>debt := - 100\<rparr>) +
        max 0 (remaining_income (zero_result\<lparr>debt := - 100\<rparr>))
      < income (zero_result\<lparr>debt := - 100\<rparr>) \<and>
    pieChart (render ''dti'' \<lparr>body_tenure = 0, body_rate = 0\<rparr> (zero_result\<lparr>debt := - 100\<rparr>)) =
      None"
    by (simp add: zero_result_def pie_dti)
  have rounded: "pieChart (render ''affordability'' \<lparr>body_tenure = 0, body_rate = 0\<rparr>
        rounded_result) =
      Some \<lparr>pie_labels = [''Expenses'', ''Existing EMIs'', ''Remaining Income'',
                          ''Other/Unallocated''],
            pie_data = [5411730261215805 / 2199023255552, 2670032046658683 / 2199023255552,
                        1125649767947305 / 137438953472, 840182533235671 / 17179869184],
            pie_colors = [''#f39c12'', ''#2980b9'', ''#27ae60'', ''#bdc3c7'']\<rparr>"
    unfolding pie_affordability
    by (simp add: rounded_result_def rounded_sum rounded_residual del: foldl.simps foldl_Cons)
  have total: "sum_list [5411730261215805 / 2199023255552, 2670032046658683 / 2199023255552,
              1125649767947305 / 137438953472, 840182533235671 / 17179869184]
      \<noteq> income rounded_result"
    by (simp add: rounded_result_def)
  have ftotal: "foldl double_add 0 [5411730261215805 / 2199023255552,
              2670032046658683 / 2199023255552,
              1125649767947305 / 137438953472, 840182533235671 / 17179869184]
      \<noteq> income rounded_result"
    by (simp add: rounded_result_def double_eval)
  have absorbed: "expenses absorbed_result + existing_emis absorbed_result +
      max 0 (remaining_income absorbed_result) < income absorbed_result \<and>
    pieChart (render ''affordability'' \<lparr>body_tenure = 0, body_rate = 0\<rparr> absorbed_result) =
      Some \<lparr>pie_labels = [''Expenses'', ''Existing EMIs'', ''Remaining Income''],
            pie_data = [4737972900336763 / 137438953472, 686381987748905 / 17179869184,
                        2365883078598983 / 34359738368],
            pie_colors = [''#f39c12'', ''#2980b9'', ''#27ae60'']\<rparr>"
    unfolding pie_affordability
    by (simp add: absorbed_result_def absorbed_sum del: foldl.simps foldl_Cons)
  from guard rounded total ftotal absorbed show ?thesis by blast
qed

lemma pie_total_affordability_nat:
  assumes "expenses r = of_nat a" "existing_emis r = of_nat b" "remaining_income r = of_nat c"
    "income r = of_nat t" "a + b + c < t" "t < 2 ^ 53"
  shows "sum_list (pie_data (the (pieChart (render ''affordability'' body r)))) = income r"
proof -
  from assms have lt: "a + b + c < 2 ^ 53" and le: "a + b + c \<le> t" and pos: "0 < t"
    by simp_all
  have m: "max 0 (remaining_income r) = of_nat c" using assms(3) by simp
  have s: "foldl double_add 0 [expenses r, existing_emis r, max 0 (remaining_income r)] =
      of_nat (a + b + c)"
    unfolding m assms(1,2) by (rule double_sum_nat [OF lt])
  have d: "double_sub (income r) (of_nat (a + b + c)) = of_nat (t - (a + b + c))"
    unfolding assms(4) by (rule double_sub_nat [OF le assms(6)])
  have less: "(of_nat (a + b + c) :: rat) < of_nat t"
    using assms(5) by (simp only: of_nat_less_iff)
  show ?thesis
    unfolding pie_affordability s d
    using pos less le assms(1,2,4) m
    by (simp add: of_nat_diff del: foldl.simps foldl_Cons)
qed

lemma pie_total_dti_nat:
  assumes "debt r = of_nat a" "remaining_income r = of_nat c"
    "income r = of_nat t" "a + c < t" "t < 2 ^ 53"
  shows "sum_list (pie_data (the (pieChart (render ''dti'' body r)))) = income r"
proof -
  from assms have lt: "a + c < 2 ^ 53" and le: "a + c \<le> t" and pos: "0 < t"
    by simp_all
  have m: "max 0 (remaining_income r) = of_nat c" using assms(2) by simp
  have s: "foldl double_add 0 [debt r, max 0 (remaining_income r)] = of_nat (a + c)"
    unfolding m assms(1) by (rule double_sum_nat2 [OF lt])
  have d: "double_sub (income r) (of_nat (a + c)) = of_nat (t - (a + c))"
    unfolding assms(3) by (rule double_sub_nat [OF le assms(5)])
  have less: "(of_nat (a + c) :: rat) < of_nat t"
    using assms(4) by (simp only: of_nat_less_iff)
  show ?thesis
    unfolding pie_dti s d
    using pos less le assms(1,3) m
    by (simp add: of_nat_diff del: foldl.simps foldl_Cons)
qed

text \<open>
  C4, amended. For every affordability or dti result whose income is positive and exceeds
  the sum of its category amounts as the code computes it (the amounts added from left to
  right as doubles, \<open>remaining_income\<close> replaced by 0 when negative), the pie dataset is the
  categories followed by one category \<open>Other/Unallocated\<close> of colour \<open>#bdc3c7\<close> whose amount
  is the double nearest to income minus that computed sum. The amounts of the pie add up
  to income exactly when all amounts are whole numbers below \<open>2^53\<close>. A negative
  \<open>remaining_income\<close> enters the pie and bar data as 0, in the chart data only: the summary
  text is built from the fields of the result as received. When income is not positive
  there is no pie.
\<close>

theorem pie_completion:
  "(income r > 0 \<and>
    foldl double_add 0 [expenses r, existing_emis r, max 0 (remaining_income r)] < income r \<longrightarrow>
      pieChart (render ''affordability'' body r) =
        Some \<lparr>pie_labels = [''Expenses'', ''Existing EMIs'', ''Remaining Income'',
                            ''Other/Unallocated''],
              pie_data = [expenses r, existing_emis r, max 0 (remaining_income r),
                          double_sub (income r)
                            (foldl double_add 0
                               [expenses r, existing_emis r, max 0 (remaining_income r)])],
              pie_colors = [''#f39c12'', ''#2980b9'', ''#27ae60'', ''#bdc3c7'']\<rparr>) \<and>
   (income r > 0 \<and> foldl double_add 0 [debt r, max 0 (remaining_income r)] < income r \<longrightarrow>
      pieChart (render ''dti'' body r) =
        Some \<lparr>pie_labels = [''Debt'', ''Remaining Income'', ''Other/Unallocated''],
              pie_data = [debt r, max 0 (remaining_income r),
                          double_sub (income r)
                            (foldl double_add 0 [debt r, max 0 (remaining_income r)])],
              pie_colors = [''#2980b9'', ''#27ae60'', ''#bdc3c7'']\<rparr>) \<and>
   (expenses r = of_nat a \<and> existing_emis r = of_nat b \<and> remaining_income r = of_nat c \<and>
    income r = of_nat t \<and> a + b + c < t \<and> t < 2 ^ 53 \<longrightarrow>
      sum_list (pie_data (the (pieChart (render ''affordability'' body r)))) = income r) \<and>
   (debt r = of_nat a \<and> remaining_income r = of_nat c \<and>
    income r = of_nat t \<and> a + c < t \<and> t < 2 ^ 53 \<longrightarrow>
      sum_list (pie_data (the (pieChart (render ''dti'' body r)))) = income r) \<and>
   (income r > 0 \<and> remaining_income r < 0 \<longrightarrow>
      pie_data (the (pieChart (render ''affordability'' body r))) ! 2 = 0 \<and>
      pie_data (the (pieChart (render ''dti'' body r))) ! 1 = 0) \<and>
   (remaining_income r < 0 \<longrightarrow>
      bar_data (the (barChart (render ''affordability'' body r))) ! 3 = 0) \<and>
   (income r \<le> 0 \<longrightarrow>
      pieChart (render ''affordability'' body r) = None \<and>
      pieChart (render ''dti'' body r) = None) \<and>
   resultContainer (render ''affordability'' body r) =
     AffordabilityResults (max_emi r) (affordable_loan r) (affordable_property r) \<and>
   resultContainer (render ''dti'' body r) = DtiResults (dti_ratio r) (risk_level r)"
proof -
  have summary:
    "resultContainer (render ''affordability'' body r) =
       AffordabilityResults (max_emi r) (affordable_loan r) (affordable_property r)"
    "resultContainer (render ''dti'' body r) = DtiResults (dti_ratio r) (risk_level r)"
    by (simp_all add: render_fields(1) summarize_def)
  have slices:
    "income r > 0 \<and>
     foldl double_add 0 [expenses r, existing_emis r, max 0 (remaining_income r)] < income r \<longrightarrow>
      pieChart (render ''affordability'' body r) =
        Some \<lparr>pie_labels = [''Expenses'', ''Existing EMIs'', ''Remaining Income'',
                            ''Other/Unallocated''],
              pie_data = [expenses r, existing_emis r, max 0 (remaining_income r),
                          double_sub (income r)
                            (foldl double_add 0
                               [expenses r, existing_emis r, max 0 (remaining_income r)])],
              pie_colors = [''#f39c12'', ''#2980b9'', ''#27ae60'', ''#bdc3c7'']\<rparr>"
    "income r > 0 \<and> foldl double_add 0 [debt r, max 0 (remaining_income r)] < income r \<longrightarrow>
      pieChart (render ''dti'' body r) =
        Some \<lparr>pie_labels = [''Debt'', ''Remaining Income'', ''Other/Unallocated''],
              pie_data = [debt r, max 0 (remaining_income r),
                          double_sub (income r)
                            (foldl double_add 0 [debt r, max 0 (remaining_income r)])],
              pie_colors = [''#2980b9'', ''#27ae60'', ''#bdc3c7'']\<rparr>"
    unfolding pie_affordability pie_dti by simp_all
  have clamps:
    "income r > 0 \<and> remaining_income r < 0 \<longrightarrow>
      pie_data (the (pieChart (render ''affordability'' body r))) ! 2 = 0 \<and>
      pie_data (the (pieChart (render ''dti'' body r))) ! 1 = 0"
    "remaining_income r < 0 \<longrightarrow>
      bar_data (the (barChart (render ''affordability'' body r))) ! 3 = 0"
    "income r \<le> 0 \<longrightarrow>
      pieChart (render ''affordability'' body r) = None \<and>
      pieChart (render ''dti'' body r) = None"
    unfolding pie_affordability pie_dti bar_affordability by simp_all
  from summary slices clamps pie_total_affordability_nat [of r a b c t body]
    pie_total_dti_nat [of r a c t body]
  show ?thesis by blast
qed

theorem pie_completion_witness:
  "pieChart (render ''affordability'' \<lparr>body_tenure = 0, body_rate = 0\<rparr>
     (zero_result\<lparr>income := 100000, expenses := 30000, existing_emis := 20000,
        remaining_income := 40000\<rparr>)) =
     Some \<lparr>pie_labels = [''Expenses'', ''Existing EMIs'', ''Remaining Income'',
                         ''Other/Unallocated''],
           pie_data = [30000, 20000, 40000, 10000],
           pie_colors = [''#f39c12'', ''#2980b9'', ''#27ae60'', ''#bdc3c7'']\<rparr> \<and>
   sum_list (pie_data (the (pieChart (render ''affordability'' \<lparr>body_tenure = 0, body_rate = 0\<rparr>
     (zero_result\<lparr>income := 100000, expenses := 30000, existing_emis := 20000,
        remaining_income := 40000\<rparr>))))) = 100000 \<and>
   pieChart (render ''dti'' \<lparr>body_tenure = 0, body_rate = 0\<rparr>
     (zero_result\<lparr>income := 100000, debt := 60000, remaining_income := 30000\<rparr>)) =
     Some \<lparr>pie_labels = [''Debt'', ''Remaining Income'', ''Other/Unallocated''],
           pie_data = [60000, 30000, 10000],
           pie_colors = [''#2980b9'', ''#27ae60'', ''#bdc3c7'']\<rparr> \<and>
   pie_data (the (pieChart (render ''dti'' \<lparr>body_tenure = 0, body_rate = 0\<rparr>
     (zero_result\<lparr>income := 100000, debt := 120000, remaining_income := - 20000\<rparr>)))) ! 1 =
     0 \<and>
   bar_data (the (barChart (render ''affordability'' \<lparr>body_tenure = 0, body_rate = 0\<rparr>
     (zero_result\<lparr>income := 100000, debt := 120000, remaining_income := - 20000\<rparr>)))) ! 3 =
     0 \<and>
   pieChart (render ''dti'' \<lparr>body_tenure = 0, body_rate = 0\<rparr> zero_result) = None"
proof -
  have sums:
    "foldl double_add 0 [30000, 20000, 40000] = 90000"
    "double_sub 100000 90000 = 10000"
    "foldl double_add 0 [60000, 30000] = 90000"
    by (simp_all add: double_eval)
  show ?thesis
    using
      pie_completion [of "zero_result\<lparr>income := 100000, expenses := 30000,
         existing_emis := 20000, remaining_income := 40000\<rparr>"
         "\<lparr>body_tenure = 0, body_rate = 0\<rparr>" 30000 20000 40000 100000]
      pie_completion [of "zero_result\<lparr>income := 100000, debt := 60000,
         remaining_income := 30000\<rparr>" "\<lparr>body_tenure = 0, body_rate = 0\<rparr>" 60000 0 30000 100000]
      pie_completion [of "zero_result\<lparr>income := 100000, debt := 120000,
         remaining_income := - 20000\<rparr>" "\<lparr>body_tenure = 0, body_rate = 0\<rparr>" 0 0 0 0]
      pie_completion [of zero_result "\<lparr>body_tenure = 0, body_rate = 0\<rparr>" 0 0 0 0]
    by (simp add: zero_result_def sums del: foldl.simps foldl_Cons)
qed

text \<open>
  When the categories of a positive income add up, as doubles, to income or more, the pie
  is the categories alone, with no synthetic category: for income 100000, expenses
  30000, existing EMIs 20000 and remaining income 50000 the three amounts are drawn as
  they are.
\<close>

theorem pie_without_shortfall:
  "(income r > 0 \<and>
    \<not> foldl double_add 0 [expenses r, existing_emis r, max 0 (remaining_income r)] < income r \<longrightarrow>
      pieChart (render ''affordability'' body r) =
        Some \<lparr>pie_labels = [''Expenses'', ''Existing EMIs'', ''Remaining Income''],
              pie_data = [expenses r, existing_emis r, max 0 (remaining_income r)],
              pie_colors = [''#f39c12'', ''#2980b9'', ''#27ae60'']\<rparr>) \<and>
   (income r > 0 \<and> \<not> foldl double_add 0 [debt r, max 0 (remaining_income r)] < income r \<longrightarrow>
      pieChart (render ''dti'' body r) =
        Some \<lparr>pie_labels = [''Debt'', ''Remaining Income''],
              pie_data = [debt r, max 0 (remaining_income r)],
              pie_colors = [''#2980b9'', ''#27ae60'']\<rparr>)"
  unfolding pie_affordability pie_dti by simp

theorem pie_without_shortfall_witness:
  "pieChart (render ''affordability'' \<lparr>body_tenure = 0, body_rate = 0\<rparr>
     (zero_result\<lparr>income := 100000, expenses := 30000, existing_emis := 20000,
        remaining_income := 50000\<rparr>)) =
     Some \<lparr>pie_labels = [''Expenses'', ''Existing EMIs'', ''Remaining Income''],
           pie_data = [30000, 20000, 50000],
           pie_colors = [''#f39c12'', ''#2980b9'', ''#27ae60'']\<rparr> \<and>
   pieChart (render ''dti'' \<lparr>body_tenure = 0, body_rate = 0\<rparr>
     (zero_result\<lparr>income := 100000, debt := 120000, remaining_income := - 20000\<rparr>)) =
     Some \<lparr>pie_labels = [''Debt'', ''Remaining Income''],
           pie_data = [120000, 0],
           pie_colors = [''#2980b9'', ''#27ae60'']\<rparr>"
proof -
  have sums:
    "foldl double_add 0 [30000, 20000, 50000] = 100000"
    "foldl double_add 0 [120000, 0] = 120000"
    by (simp_all add: double_eval)
  show ?thesis
    using
      pie_without_shortfall [of "zero_result\<lparr>income := 100000, expenses := 30000,
         existing_emis := 20000, remaining_income := 50000\<rparr>" "\<lparr>body_tenure = 0, body_rate = 0\<rparr>"]
      pie_without_shortfall [of "zero_result\<lparr>income := 100000, debt := 120000,
         remaining_income := - 20000\<rparr>" "\<lparr>body_tenure = 0, body_rate = 0\<rparr>"]
    by (simp add: zero_result_def sums del: foldl.simps foldl_Cons)
qed

section \<open>Unrecognized calculator type\<close>

text \<open>
  C8. The claim is that every submission of a type outside emi, affordability, dti,
  gratuity and retirement renders the fixed fallback text and does not throw. The type is
  looked at only after \<open>await fetch\<close> and \<open>await res.json()\<close>, which \<open>submitForm\<close> does not
  guard: when the request for the unknown type is rejected, or is answered by an error
  page that is not JSON, the exception leaves \<open>submitForm\<close> and the fallback text is not
  rendered. This is the missing \<open>try\<close>/\<open>catch\<close> of C5.
\<close>

theorem unknown_type_request_failure:
  "submitForm ''loan'' \<lparr>body_tenure = 12, body_rate = 9\<rparr> (Rejected ''Failed to fetch'') =
     Inl ''Failed to fetch'' \<and>
   submitForm ''loan'' \<lparr>body_tenure = 12, body_rate = 9\<rparr>
     (Response 404 (NotJson ''Unexpected token < in JSON at position 0'')) =
     Inl ''Unexpected token < in JSON at position 0'' \<and>
   submitForm ''loan'' \<lparr>body_tenure = 12, body_rate = 9\<rparr>
     (Response 404 (NotJson ''Unexpected token < in JSON at position 0'')) \<noteq>
     Inr \<lparr>resultContainer = Markup ''<p>Invalid calculator type or error.</p>'',
          pieChart = None, barChart = None, amortChart = None\<rparr>"
  by (simp add: submitForm_def)

text \<open>
  Once a result object has arrived, whatever the status of the response, a type outside
  the five recognized ones renders the fixed text
  \<open><p>Invalid calculator type or error.</p>\<close> and no pie, bar or amortization dataset,
  whatever the result object and the form hold.
\<close>

theorem unknown_type_fallback:
  "type \<notin> {''emi'', ''affordability'', ''dti'', ''gratuity'', ''retirement''} \<Longrightarrow>
     render type body result =
       \<lparr>resultContainer = Markup ''<p>Invalid calculator type or error.</p>'',
        pieChart = None, barChart = None, amortChart = None\<rparr> \<and>
     submitForm type body (Response st (Json result)) =
       Inr \<lparr>resultContainer = Markup ''<p>Invalid calculator type or error.</p>'',
            pieChart = None, barChart = None, amortChart = None\<rparr>"
  by (simp add: submitForm_def render_def summarize_def pieChart_of_def barChart_of_def
      amortChart_of_def)

theorem unknown_type_fallback_witness:
  "render ''loan'' \<lparr>body_tenure = 12, body_rate = 9\<rparr> zero_result =
     \<lparr>resultContainer = Markup ''<p>Invalid calculator type or error.</p>'',
      pieChart = None, barChart = None, amortChart = None\<rparr> \<and>
   submitForm ''EMI'' \<lparr>body_tenure = 12, body_rate = 9\<rparr> (Response 404 (Json zero_result)) =
     Inr \<lparr>resultContainer = Markup ''<p>Invalid calculator type or error.</p>'',
          pieChart = None, barChart = None, amortChart = None\<rparr>"
  using
    unknown_type_fallback [of "''loan''" "\<lparr>body_tenure = 12, body_rate = 9\<rparr>" zero_result 404]
    unknown_type_fallback [of "''EMI''" "\<lparr>body_tenure = 12, body_rate = 9\<rparr>" zero_result 404]
  by simp

section \<open>Failures of the calculator request\<close>

text \<open>
  C5. The claim is that each of the three remote operations catches a network failure or
  a response that is not 2xx and shows an error message. \<open>searchLocations\<close> and
  \<open>loadLocationDetails\<close> wrap their request in \<open>try\<close>/\<open>catch\<close>; \<open>submitForm\<close> does not.
  When its \<open>fetch\<close> is rejected, or the body of an error response is not JSON, the
  exception leaves \<open>submitForm\<close> and nothing is rendered.
\<close>

theorem submitForm_failure_uncaught:
  "submitForm ''emi'' \<lparr>body_tenure = 12, body_rate = 9\<rparr> (Rejected ''Failed to fetch'') =
     Inl ''Failed to fetch'' \<and>
   submitForm ''emi'' \<lparr>body_tenure = 12, body_rate = 9\<rparr>
     (Response 500 (NotJson ''Unexpected token < in JSON'')) =
     Inl ''Unexpected token < in JSON''"
  by (simp add: submitForm_def)

end
